theory Spec2Isabelle
  imports Main "HOL-Library.Word"
begin

section \<open>JavaScript strings\<close>

text \<open>
  A JavaScript string is a sequence of 16-bit code units. The string methods used by
  \<^verbatim>\<open>src/lib/bestrx.ts\<close> (\<^verbatim>\<open>split\<close>, \<^verbatim>\<open>trim\<close>, \<^verbatim>\<open>replace\<close> with a
  regular expression without the \<^verbatim>\<open>u\<close> flag) all work code unit by code unit.
  \<open>str\<close> writes an ASCII literal of the source as such a sequence.
\<close>

type_synonym code_unit = "16 word"
type_synonym jsstring = "code_unit list"

definition str :: "string \<Rightarrow> jsstring" where
  "str s = map of_char s"

definition comma :: code_unit where
  "comma = 44"

definition space :: code_unit where
  "space = 32"

definition newline :: code_unit where
  "newline = 10"

definition tab :: code_unit where
  "tab = 9"

text \<open>The class \<^verbatim>\<open>\d\<close> of a regular expression: the ten ASCII digits.\<close>

definition is_digit :: "code_unit \<Rightarrow> bool" where
  "is_digit c = (48 \<le> c \<and> c \<le> 57)"

text \<open>
  The code units stripped by \<^verbatim>\<open>String.prototype.trim\<close>: the WhiteSpace and
  LineTerminator productions of ECMAScript (TAB, LF, VT, FF, CR, SP, NBSP, the Unicode space
  separators, LS, PS and the byte order mark).
\<close>

definition is_white_space :: "code_unit \<Rightarrow> bool" where
  "is_white_space c =
     (c \<in> set [0x0009, 0x000A, 0x000B, 0x000C, 0x000D, 0x0020, 0x00A0, 0x1680,
                0x2000, 0x2001, 0x2002, 0x2003, 0x2004, 0x2005, 0x2006, 0x2007,
                0x2008, 0x2009, 0x200A, 0x2028, 0x2029, 0x202F, 0x205F, 0x3000, 0xFEFF])"

definition js_trim :: "jsstring \<Rightarrow> jsstring" where
  "js_trim s = rev (dropWhile is_white_space (rev (dropWhile is_white_space s)))"

text \<open>
  \<^verbatim>\<open>s.split(sep)\<close> for a separator of one code unit: the scan keeps the piece read so
  far and closes it at every separator, so the result always has one piece more than
  there are separators (\<^verbatim>\<open>"".split(",")\<close> is \<^verbatim>\<open>[""]\<close>).
\<close>

fun split_from :: "code_unit \<Rightarrow> jsstring \<Rightarrow> jsstring \<Rightarrow> jsstring list" where
  "split_from sep piece [] = [piece]"
| "split_from sep piece (c # cs) =
     (if c = sep then piece # split_from sep [] cs else split_from sep (piece @ [c]) cs)"

definition js_split :: "code_unit \<Rightarrow> jsstring \<Rightarrow> jsstring list" where
  "js_split sep s = split_from sep [] s"

text \<open>
  \<^verbatim>\<open>s.replace(/C/g, rep)\<close> for a regular expression that is a single character class
  \<open>C\<close>: every code unit in the class is replaced by \<open>rep\<close>, the others are kept.
\<close>

fun replace_all_class :: "(code_unit \<Rightarrow> bool) \<Rightarrow> jsstring \<Rightarrow> jsstring \<Rightarrow> jsstring" where
  "replace_all_class cls rep [] = []"
| "replace_all_class cls rep (c # cs) =
     (if cls c then rep @ replace_all_class cls rep cs else c # replace_all_class cls rep cs)"

text \<open>\<^verbatim>\<open>xs[i]\<close> on an array is \<^verbatim>\<open>undefined\<close> (here \<open>None\<close>) out of range.\<close>

definition js_index :: "'a list \<Rightarrow> nat \<Rightarrow> 'a option" where
  "js_index xs i = (if i < length xs then Some (xs ! i) else None)"

text \<open>\<^verbatim>\<open>xs.pop()\<close>: the last element, \<^verbatim>\<open>undefined\<close> on the empty array.\<close>

definition js_pop :: "'a list \<Rightarrow> 'a option" where
  "js_pop xs = (if xs = [] then None else Some (last xs))"

text \<open>
  \<^verbatim>\<open>v || d\<close> where \<open>v\<close> is a string or \<^verbatim>\<open>undefined\<close>: \<^verbatim>\<open>undefined\<close> and the
  empty string are falsy.
\<close>

definition or_string :: "jsstring option \<Rightarrow> jsstring \<Rightarrow> jsstring" where
  "or_string v d = (case v of None \<Rightarrow> d | Some s \<Rightarrow> if s = [] then d else s)"


section \<open>Payload construction\<close>

text \<open>\<^verbatim>\<open>phone.replace(/\D/g, '')\<close>: the class \<^verbatim>\<open>\D\<close> is the complement of \<^verbatim>\<open>\d\<close>.\<close>

definition formatPhoneForBestRX :: "jsstring \<Rightarrow> jsstring" where
  "formatPhoneForBestRX phone = replace_all_class (\<lambda>c. \<not> is_digit c) [] phone"

text \<open>
  \<^verbatim>\<open>RefillFormData\<close> of \<^verbatim>\<open>schemas.ts\<close>. The optional fields are options
  (\<open>None\<close> is \<^verbatim>\<open>undefined\<close>); the field \<^verbatim>\<open>notes\<close> is called \<open>notes_opt\<close>,
  \<open>notes\<close> being a keyword here.
\<close>

record RefillFormData =
  patientName :: jsstring
  dob :: jsstring
  phone :: jsstring
  email :: "jsstring option"
  prescriptionNumbers :: jsstring
  medicationNames :: jsstring
  preferredService :: jsstring
  notes_opt :: "jsstring option"
  consent :: bool

record RxInRefillRequestItem =
  RxNumber :: jsstring
  MedicationName :: jsstring

record RefillPayload =
  userName :: jsstring
  APIKey :: jsstring
  PharmacyNumber :: jsstring
  LastName :: jsstring
  DOB :: jsstring
  Phone :: jsstring
  DeliveryOption :: jsstring
  RxInRefillRequest :: "RxInRefillRequestItem list"

definition buildRefillRequestPayload ::
  "RefillFormData \<Rightarrow> jsstring \<Rightarrow> jsstring \<Rightarrow> jsstring \<Rightarrow> RefillPayload" where
  "buildRefillRequestPayload formData pharmacyNumber apiKey username =
     (let rxNumbers =
            filter (\<lambda>num. length num > 0)
              (map (\<lambda>num. js_trim num) (js_split comma (prescriptionNumbers formData)));
          medications =
            filter (\<lambda>name. length name > 0)
              (map (\<lambda>name. js_trim name) (js_split comma (medicationNames formData)));
          rxInRefillRequest =
            map (\<lambda>(index, rxNumber).
                   \<lparr>RxNumber = rxNumber,
                    MedicationName = or_string (js_index medications index) []\<rparr>)
              (enumerate 0 rxNumbers)
      in \<lparr>userName = username,
          APIKey = apiKey,
          PharmacyNumber = pharmacyNumber,
          LastName = or_string (js_pop (js_split space (patientName formData)))
                       (patientName formData),
          DOB = dob formData,
          Phone = formatPhoneForBestRX (phone formData),
          DeliveryOption = or_string (Some (preferredService formData)) (str ''Pickup''),
          RxInRefillRequest = rxInRefillRequest\<rparr>)"

text \<open>
  The words of the specification, for comparison with the code: the tokens of a
  comma-separated list are its pieces between commas, trimmed, the empty ones dropped.
\<close>

definition nonempty_trimmed_tokens :: "jsstring \<Rightarrow> jsstring list" where
  "nonempty_trimmed_tokens s = filter (\<lambda>t. t \<noteq> []) (map js_trim (js_split comma s))"

text \<open>
  The words of the specification, for comparison with the code: the whitespace-separated
  tokens of a string are its maximal runs of code units that are not white space.
\<close>

fun whitespace_tokens_from :: "jsstring \<Rightarrow> jsstring \<Rightarrow> jsstring list" where
  "whitespace_tokens_from tok [] = (if tok = [] then [] else [tok])"
| "whitespace_tokens_from tok (c # cs) =
     (if is_white_space c
      then (if tok = [] then whitespace_tokens_from [] cs
            else tok # whitespace_tokens_from [] cs)
      else whitespace_tokens_from (tok @ [c]) cs)"

definition final_whitespace_token :: "jsstring \<Rightarrow> jsstring option" where
  "final_whitespace_token s = js_pop (whitespace_tokens_from [] s)"



definition after_last_space :: "jsstring \<Rightarrow> jsstring" where
  "after_last_space s = rev (takeWhile (\<lambda>c. c \<noteq> space) (rev s))"

definition example_refill_form :: RefillFormData where
  "example_refill_form =
     \<lparr>patientName = str ''Jane Doe'', dob = str ''1980-01-31'', phone = str ''(614) 555-1234'',
      email = None, prescriptionNumbers = str ''111, 222'', medicationNames = str ''Drug A'',
      preferredService = str ''pickup'', notes_opt = None, consent = True\<rparr>"


section \<open>Response values\<close>

text \<open>
  \<^verbatim>\<open>response.json()\<close> yields a JSON value. An object is the list of its own properties,
  read by \<open>map_of\<close>, so the first binding of a name is the property. A number is kept as
  its rendering by \<^verbatim>\<open>Number.prototype.toString\<close> (\<^verbatim>\<open>"27"\<close>, \<^verbatim>\<open>"0.5"\<close>,
  \<^verbatim>\<open>"1e+21"\<close>): the module looks at a number only through its truthiness and its
  conversion to a string, and a parsed number is never \<^verbatim>\<open>NaN\<close>, so it is falsy exactly
  when it renders as \<^verbatim>\<open>"0"\<close>.
\<close>

datatype json =
    JNull
  | JBool bool
  | JNum jsstring
  | JStr jsstring
  | JArr "json list"
  | JObj "(jsstring \<times> json) list"

text \<open>
  The values of the module's expressions: \<^verbatim>\<open>undefined\<close>, a JSON value, or a member
  inherited from \<^verbatim>\<open>Object.prototype\<close>, named by its property name.
\<close>

datatype jsval =
    Undefined
  | Val json
  | Inherited jsstring

datatype js_type = TObject | TBoolean | TNumber | TString

datatype exception = TypeError

fun json_truthy :: "json \<Rightarrow> bool" where
  "json_truthy JNull = False"
| "json_truthy (JBool b) = b"
| "json_truthy (JNum n) = (n \<noteq> str ''0'')"
| "json_truthy (JStr s) = (s \<noteq> [])"
| "json_truthy (JArr xs) = True"
| "json_truthy (JObj ps) = True"

fun js_truthy :: "jsval \<Rightarrow> bool" where
  "js_truthy Undefined = False"
| "js_truthy (Val v) = json_truthy v"
| "js_truthy (Inherited k) = True"

fun js_typeof :: "json \<Rightarrow> js_type" where
  "js_typeof JNull = TObject"
| "js_typeof (JBool b) = TBoolean"
| "js_typeof (JNum n) = TNumber"
| "js_typeof (JStr s) = TString"
| "js_typeof (JArr xs) = TObject"
| "js_typeof (JObj ps) = TObject"

text \<open>A value read from a response: a JSON value, or \<open>None\<close> for \<^verbatim>\<open>undefined\<close>.\<close>

definition opt_truthy :: "json option \<Rightarrow> bool" where
  "opt_truthy v = (case v of None \<Rightarrow> False | Some j \<Rightarrow> json_truthy j)"

definition opt_val :: "json option \<Rightarrow> jsval" where
  "opt_val v = (case v of None \<Rightarrow> Undefined | Some j \<Rightarrow> Val j)"

text \<open>
  The property names the module reads from response data. None of them is a property
  of \<^verbatim>\<open>Object.prototype\<close> or of an array, so \<open>js_field\<close>, the read \<^verbatim>\<open>data.name\<close>
  for these names, is the own property of an object and \<^verbatim>\<open>undefined\<close> on an array.
  Every read in the module is guarded by \<^verbatim>\<open>typeof data === 'object'\<close> and a null check,
  so the last equation is never used.
\<close>

definition response_field_names :: "jsstring list" where
  "response_field_names =
     [str ''RxInRefillResponse'', str ''Status'', str ''IsValid'', str ''RxTransferred'',
      str ''ErrorCode'', str ''ErrorMessage'']"

fun js_field :: "json \<Rightarrow> jsstring \<Rightarrow> json option" where
  "js_field (JObj ps) name = map_of ps name"
| "js_field (JArr xs) name = None"
| "js_field v name = None"

text \<open>\<^verbatim>\<open>Array.isArray(v)\<close> and the elements of \<open>v\<close>.\<close>

fun is_array :: "json option \<Rightarrow> bool" where
  "is_array (Some (JArr xs)) = True"
| "is_array v = False"

fun array_items :: "json option \<Rightarrow> json list" where
  "array_items (Some (JArr xs)) = xs"
| "array_items v = []"

text \<open>\<^verbatim>\<open>xs.some(p)\<close> and \<^verbatim>\<open>xs.find(p)\<close>, left to right.\<close>

fun js_some :: "('a \<Rightarrow> bool) \<Rightarrow> 'a list \<Rightarrow> bool" where
  "js_some p [] = False"
| "js_some p (x # xs) = (if p x then True else js_some p xs)"

fun js_find :: "('a \<Rightarrow> bool) \<Rightarrow> 'a list \<Rightarrow> 'a option" where
  "js_find p [] = None"
| "js_find p (x # xs) = (if p x then Some x else js_find p xs)"

text \<open>
  \<^verbatim>\<open>v === 'text'\<close> and \<^verbatim>\<open>v === true\<close>: strict equality with a primitive holds only
  for a value of the same type.
\<close>

fun strict_eq_string :: "json option \<Rightarrow> jsstring \<Rightarrow> bool" where
  "strict_eq_string (Some (JStr t)) s = (t = s)"
| "strict_eq_string v s = False"

fun strict_eq_true :: "json option \<Rightarrow> bool" where
  "strict_eq_true (Some (JBool b)) = b"
| "strict_eq_true v = False"

text \<open>
  \<^verbatim>\<open>String(v)\<close> and the conversion of \<open>v\<close> to a property key. An array is joined with
  commas, \<^verbatim>\<open>null\<close> elements rendered empty. A plain object renders through the inherited
  \<^verbatim>\<open>toString\<close> as \<^verbatim>\<open>[object Object]\<close>; when it has an own property \<^verbatim>\<open>toString\<close>
  (parsed data, so not callable), neither that nor \<^verbatim>\<open>valueOf\<close> yields a primitive and
  the conversion throws a TypeError.
\<close>

fun to_string :: "json \<Rightarrow> exception + jsstring"
  and join_items :: "json list \<Rightarrow> exception + jsstring" where
  "to_string JNull = Inr (str ''null'')"
| "to_string (JBool b) = Inr (if b then str ''true'' else str ''false'')"
| "to_string (JNum n) = Inr n"
| "to_string (JStr s) = Inr s"
| "to_string (JArr xs) = join_items xs"
| "to_string (JObj ps) =
     (if map_of ps (str ''toString'') = None then Inr (str ''[object Object]'')
      else Inl TypeError)"
| "join_items [] = Inr []"
| "join_items (x # xs) =
     (case (if x = JNull then Inr [] else to_string x) of
        Inl e \<Rightarrow> Inl e
      | Inr first \<Rightarrow>
          (if xs = [] then Inr first
           else (case join_items xs of
                   Inl e \<Rightarrow> Inl e
                 | Inr rest \<Rightarrow> Inr (first @ comma # rest))))"

definition js_String :: "json option \<Rightarrow> exception + jsstring" where
  "js_String v = (case v of None \<Rightarrow> Inr (str ''undefined'') | Some j \<Rightarrow> to_string j)"

text \<open>
  The properties every plain object inherits from \<^verbatim>\<open>Object.prototype\<close>; each is a
  function, or for \<^verbatim>\<open>__proto__\<close> the prototype object, hence truthy. \<^verbatim>\<open>obj[key]\<close> on an
  object literal is its own property, else the inherited one, else \<^verbatim>\<open>undefined\<close>.
\<close>

definition object_prototype_members :: "jsstring list" where
  "object_prototype_members =
     [str ''constructor'', str ''hasOwnProperty'', str ''isPrototypeOf'',
      str ''propertyIsEnumerable'', str ''toLocaleString'', str ''toString'', str ''valueOf'',
      str ''__proto__'', str ''__defineGetter__'', str ''__defineSetter__'',
      str ''__lookupGetter__'', str ''__lookupSetter__'']"

definition object_get :: "(jsstring \<times> json) list \<Rightarrow> jsstring \<Rightarrow> jsval" where
  "object_get ps key =
     (case map_of ps key of
        Some v \<Rightarrow> Val v
      | None \<Rightarrow> if key \<in> set object_prototype_members then Inherited key else Undefined)"

text \<open>\<^verbatim>\<open>a || b\<close>.\<close>

definition js_or :: "jsval \<Rightarrow> jsval \<Rightarrow> jsval" where
  "js_or a b = (if js_truthy a then a else b)"


section \<open>Response and error normalisation\<close>

definition BESTRX_ERROR_CODES :: "(jsstring \<times> json) list" where
  "BESTRX_ERROR_CODES =
     [(str ''ERROR_INVALID_PHARMACY'',
         JStr (str ''Invalid pharmacy number. Please verify your pharmacy details.'')),
      (str ''ERROR_INVALID_PATIENT'',
         JStr (str ''Patient information not found. Please verify your name and date of birth.'')),
      (str ''ERROR_RX_NOT_FOUND'',
         JStr (str ''One or more prescription numbers were not found. Please verify the numbers.'')),
      (str ''ERROR_RX_INACTIVE'',
         JStr (str ''One or more prescriptions are no longer active. Please contact us for assistance.'')),
      (str ''ERROR_RX_REFILLED'',
         JStr (str ''One or more prescriptions have already been refilled recently.'')),
      (str ''ERROR_GENERIC'',
         JStr (str ''An error occurred while processing your request. Please try again.'')),
      (str ''ERROR0027'',
         JStr (str ''Prescription not found. Please verify the prescription number.'')),
      (str ''ERROR0069'',
         JStr (str ''Prescription cannot be transferred. Please contact the pharmacy.'')),
      (str ''ERROR0070'', JStr (str ''Invalid destination pharmacy information.'')),
      (str ''ERROR0080'', JStr (str ''Patient not found in system.'')),
      (str ''ERROR0003'', JStr (str ''Patient date of birth does not match.'')),
      (str ''ERROR0082'', JStr (str ''Transfer limit exceeded. Please try again later.''))]"

text \<open>
  \<^verbatim>\<open>mapBestRXError(errorCode, httpStatus)\<close>. The signature asks for a string or
  \<^verbatim>\<open>undefined\<close>; \<^verbatim>\<open>extractTransferErrorMessage\<close> passes whatever truthy value the
  response carries, so the argument is any value read from a response, and the table
  lookup converts it to a property key first.
\<close>

definition mapBestRXError :: "json option \<Rightarrow> int option \<Rightarrow> exception + jsval" where
  "mapBestRXError errorCode httpStatus =
     (if \<not> opt_truthy errorCode then
        (if httpStatus = Some 400
         then Inr (Val (JStr (str ''Invalid request. Please check your information and try again.'')))
         else if httpStatus = Some 403
         then Inr (Val (JStr (str ''Authentication failed. Please contact support.'')))
         else if httpStatus = Some 500
         then Inr (Val (JStr (str ''Service temporarily unavailable. Please try again later.'')))
         else Inr (object_get BESTRX_ERROR_CODES (str ''ERROR_GENERIC'')))
      else
        (case js_String errorCode of
           Inl e \<Rightarrow> Inl e
         | Inr key \<Rightarrow>
             Inr (js_or (object_get BESTRX_ERROR_CODES key)
                    (object_get BESTRX_ERROR_CODES (str ''ERROR_GENERIC'')))))"

definition validateRefillResponse :: "json \<Rightarrow> bool" where
  "validateRefillResponse response =
     (if \<not> json_truthy response \<or> js_typeof response \<noteq> TObject then False
      else
        (let rxResponses = js_field response (str ''RxInRefillResponse'')
         in if \<not> is_array rxResponses then False
            else js_some
                   (\<lambda>rx. js_typeof rx = TObject \<and> rx \<noteq> JNull \<and>
                         strict_eq_string (js_field rx (str ''Status'')) (str ''OK''))
                   (array_items rxResponses)))"

definition validateTransferResponse :: "json \<Rightarrow> bool" where
  "validateTransferResponse response =
     (if \<not> json_truthy response \<or> js_typeof response \<noteq> TObject then False
      else strict_eq_true (js_field response (str ''IsValid'')) \<and>
           strict_eq_true (js_field response (str ''RxTransferred'')))"

definition extractRefillErrorMessage :: "json \<Rightarrow> exception + jsval" where
  "extractRefillErrorMessage response =
     (if \<not> json_truthy response \<or> js_typeof response \<noteq> TObject then Inr (Val JNull)
      else
        (let rxResponses = js_field response (str ''RxInRefillResponse'')
         in if is_array rxResponses \<and> length (array_items rxResponses) > 0 then
              (case js_find
                      (\<lambda>rx. js_typeof rx = TObject \<and> rx \<noteq> JNull \<and>
                            \<not> strict_eq_string (js_field rx (str ''Status'')) (str ''OK''))
                      (array_items rxResponses) of
                 None \<Rightarrow> Inr (Val JNull)
               | Some firstError \<Rightarrow>
                   if json_truthy firstError \<and> js_typeof firstError = TObject then
                     (let errorCode = js_field firstError (str ''ErrorCode'');
                          errorMessage = js_field firstError (str ''ErrorMessage'')
                      in if opt_truthy errorCode then
                           (case js_String errorCode of
                              Inl e \<Rightarrow> Inl e
                            | Inr text \<Rightarrow> mapBestRXError (Some (JStr text)) None)
                         else if opt_truthy errorMessage then
                           (case js_String errorMessage of
                              Inl e \<Rightarrow> Inl e
                            | Inr text \<Rightarrow> Inr (Val (JStr text)))
                         else Inr (Val JNull))
                   else Inr (Val JNull))
            else Inr (Val JNull)))"

definition extractTransferErrorMessage :: "json \<Rightarrow> exception + jsval" where
  "extractTransferErrorMessage response =
     (if \<not> json_truthy response \<or> js_typeof response \<noteq> TObject then Inr (Val JNull)
      else
        (let errorCode = js_field response (str ''ErrorCode'');
             errorMessage = js_field response (str ''ErrorMessage'')
         in if opt_truthy errorCode then mapBestRXError errorCode None
            else if opt_truthy errorMessage then Inr (opt_val errorMessage)
            else mapBestRXError None None))"


section \<open>Transfer payload\<close>

text \<open>
  \<^verbatim>\<open>TransferFormData\<close> of \<^verbatim>\<open>schemas.ts\<close>; its field \<^verbatim>\<open>consent\<close> is called
  \<open>transferConsent\<close>, the refill form having taken the name.
\<close>

record TransferFormData =
  rxNumber :: jsstring
  rxFillDate :: jsstring
  transferToPharmacyName :: jsstring
  transferToPharmacyAddress1 :: jsstring
  transferToPharmacyAddress2 :: "jsstring option"
  transferToPharmacyCity :: jsstring
  transferToPharmacyState :: jsstring
  transferToPharmacyZip :: jsstring
  transferToPharmacyPhone :: jsstring
  transferToPharmacyNCPDP :: "jsstring option"
  transferRxRemark :: "jsstring option"
  transferConsent :: bool

text \<open>
  The transfer payload. \<open>ToPhone\<close> is the property \<^verbatim>\<open>Phone\<close> of the nested object and
  \<open>TransferPharmacyNumber\<close> the property \<^verbatim>\<open>PharmacyNumber\<close>, both names being fields of
  the refill payload already.
\<close>

record TransferToPharmacyAddress =
  Name :: jsstring
  Address :: jsstring
  Address2 :: jsstring
  City :: jsstring
  State :: jsstring
  Zip :: jsstring
  ToPhone :: jsstring
  NCPDP :: jsstring

record TransferPayload =
  TransferPharmacyNumber :: jsstring
  RxNo :: jsstring
  RxFillDate :: jsstring
  TransferToPharmacy :: TransferToPharmacyAddress
  TransferDate :: "jsstring option"
  Comments :: jsstring

definition letter_T :: code_unit where
  "letter_T = 84"

text \<open>
  \<^verbatim>\<open>buildTransferRequestPayload\<close> reads the clock: \<open>now_iso\<close> is the value of
  \<^verbatim>\<open>new Date().toISOString()\<close> at the call.
\<close>

definition buildTransferRequestPayload ::
  "jsstring \<Rightarrow> TransferFormData \<Rightarrow> jsstring \<Rightarrow> TransferPayload" where
  "buildTransferRequestPayload now_iso formData pharmacyNumber =
     (let transferDate = js_index (js_split letter_T now_iso) 0
      in \<lparr>TransferPharmacyNumber = pharmacyNumber,
          RxNo = rxNumber formData,
          RxFillDate = rxFillDate formData,
          TransferToPharmacy =
            \<lparr>Name = transferToPharmacyName formData,
             Address = transferToPharmacyAddress1 formData,
             Address2 = or_string (transferToPharmacyAddress2 formData) [],
             City = transferToPharmacyCity formData,
             State = transferToPharmacyState formData,
             Zip = transferToPharmacyZip formData,
             ToPhone = formatPhoneForBestRX (transferToPharmacyPhone formData),
             NCPDP = or_string (transferToPharmacyNCPDP formData) []\<rparr>,
          TransferDate = transferDate,
          Comments = or_string (transferRxRemark formData) []\<rparr>)"

text \<open>
  \<^verbatim>\<open>buildBasicAuthHeader\<close>. \<^verbatim>\<open>btoa\<close> is the platform's base64 encoder, an input of
  the model; it throws (\<open>None\<close>) on a code unit above 255.
\<close>

definition buildBasicAuthHeader ::
  "(jsstring \<Rightarrow> jsstring option) \<Rightarrow> jsstring \<Rightarrow> jsstring \<Rightarrow> jsstring option" where
  "buildBasicAuthHeader platform_btoa username password =
     (let credentials = username @ str '':'' @ password
      in case platform_btoa credentials of
           None \<Rightarrow> None
         | Some encoded \<Rightarrow> Some (str ''Basic '' @ encoded))"


section \<open>Submission\<close>

text \<open>
  The network and the platform are inputs of the model. A request carries the payload
  that \<^verbatim>\<open>JSON.stringify\<close> serialises. \<^verbatim>\<open>fetch\<close> rejects, or resolves to a response
  with a status and a body that \<^verbatim>\<open>response.json()\<close> parses (\<open>Some\<close>) or rejects
  (\<open>None\<close>). \<^verbatim>\<open>supabase.rpc\<close> rejects, or resolves with or without an error.
\<close>

datatype request_body = RefillBody RefillPayload | TransferBody TransferPayload

datatype request = Post jsstring "(jsstring \<times> jsstring) list" request_body

datatype fetch_outcome = FetchRejected | FetchResponse int "json option"

datatype rpc_call = RpcCall jsstring "(jsstring \<times> json) list"

datatype rpc_outcome = RpcRejected | RpcResolved "jsstring option"

datatype effect = NetFetch request | NetRpc rpc_call | ConsoleError | ConsoleWarn

record world =
  fetch :: "request \<Rightarrow> fetch_outcome"
  rpc :: "rpc_call \<Rightarrow> rpc_outcome"
  btoa :: "jsstring \<Rightarrow> jsstring option"
  now_iso :: jsstring

text \<open>\<^verbatim>\<open>response.ok\<close>: the status is in the range 200 to 299.\<close>

definition response_ok :: "int \<Rightarrow> bool" where
  "response_ok status = (200 \<le> status \<and> status \<le> 299)"

definition BESTRX_ENDPOINTS_refill :: jsstring where
  "BESTRX_ENDPOINTS_refill =
     str ''https://webservice.bcsbestrx.com/bcswebservice/v2/webrefillservice/SendRefillRequest''"

definition BESTRX_ENDPOINTS_transfer :: jsstring where
  "BESTRX_ENDPOINTS_transfer =
     str ''https://dataservice.bestrxconnect.com/prescription/submitrxtransferrequest''"

text \<open>The two requests the module sends with \<^verbatim>\<open>fetch\<close>.\<close>

definition refill_request :: "RefillPayload \<Rightarrow> request" where
  "refill_request payload =
     Post BESTRX_ENDPOINTS_refill
       [(str ''Content-Type'', str ''application/json'')] (RefillBody payload)"

definition transfer_request :: "TransferPayload \<Rightarrow> jsstring \<Rightarrow> request" where
  "transfer_request payload basicAuthHeader =
     Post BESTRX_ENDPOINTS_transfer
       [(str ''Content-Type'', str ''application/json''),
        (str ''Authorization'', basicAuthHeader)] (TransferBody payload)"

record SubmissionResult =
  success :: bool
  message :: jsval
  data :: "json option"

definition connection_failure :: SubmissionResult where
  "connection_failure =
     \<lparr>success = False,
      message = Val (JStr (str ''Unable to connect to pharmacy service. Please try again later.'')),
      data = None\<rparr>"

text \<open>
  \<^verbatim>\<open>submitRefillToBestRX\<close>: the effects it performs and the result it resolves to. Every
  exception inside its \<^verbatim>\<open>try\<close> block is logged and becomes \<open>connection_failure\<close>.
\<close>

definition submitRefillToBestRX :: "world \<Rightarrow> RefillPayload \<Rightarrow> effect list \<times> SubmissionResult" where
  "submitRefillToBestRX w payload =
     (let request = refill_request payload;
          caught = ([NetFetch request, ConsoleError], connection_failure)
      in case fetch w request of
           FetchRejected \<Rightarrow> caught
         | FetchResponse status parsed \<Rightarrow>
             (case parsed of
                None \<Rightarrow> caught
              | Some responseData \<Rightarrow>
                  if \<not> response_ok status then
                    (case extractRefillErrorMessage responseData of
                       Inl e \<Rightarrow> caught
                     | Inr errorMessage \<Rightarrow>
                         if js_truthy errorMessage then
                           ([NetFetch request],
                            \<lparr>success = False, message = errorMessage, data = None\<rparr>)
                         else
                           (case mapBestRXError None (Some status) of
                              Inl e \<Rightarrow> caught
                            | Inr mapped \<Rightarrow>
                                ([NetFetch request],
                                 \<lparr>success = False, message = mapped, data = None\<rparr>)))
                  else if \<not> validateRefillResponse responseData then
                    (case extractRefillErrorMessage responseData of
                       Inl e \<Rightarrow> caught
                     | Inr errorMessage \<Rightarrow>
                         ([NetFetch request],
                          \<lparr>success = False,
                           message = js_or errorMessage
                             (Val (JStr (str ''Unable to process refill request. Please try again.''))),
                           data = None\<rparr>))
                  else
                    ([NetFetch request],
                     \<lparr>success = True,
                      message = Val (JStr (str ''Refill request submitted successfully'')),
                      data = Some responseData\<rparr>)))"

definition submitTransferToBestRX ::
  "world \<Rightarrow> TransferPayload \<Rightarrow> jsstring \<Rightarrow> effect list \<times> SubmissionResult" where
  "submitTransferToBestRX w payload basicAuthHeader =
     (let request = transfer_request payload basicAuthHeader;
          caught = ([NetFetch request, ConsoleError], connection_failure)
      in case fetch w request of
           FetchRejected \<Rightarrow> caught
         | FetchResponse status parsed \<Rightarrow>
             (case parsed of
                None \<Rightarrow> caught
              | Some responseData \<Rightarrow>
                  if \<not> response_ok status then
                    (case extractTransferErrorMessage responseData of
                       Inl e \<Rightarrow> caught
                     | Inr errorMessage \<Rightarrow>
                         if js_truthy errorMessage then
                           ([NetFetch request],
                            \<lparr>success = False, message = errorMessage, data = None\<rparr>)
                         else
                           (case mapBestRXError None (Some status) of
                              Inl e \<Rightarrow> caught
                            | Inr mapped \<Rightarrow>
                                ([NetFetch request],
                                 \<lparr>success = False, message = mapped, data = None\<rparr>)))
                  else if \<not> validateTransferResponse responseData then
                    (case extractTransferErrorMessage responseData of
                       Inl e \<Rightarrow> caught
                     | Inr errorMessage \<Rightarrow>
                         ([NetFetch request],
                          \<lparr>success = False,
                           message = js_or errorMessage
                             (Val (JStr (str ''Unable to process transfer request. Please try again.''))),
                           data = None\<rparr>))
                  else
                    ([NetFetch request],
                     \<lparr>success = True,
                      message = Val (JStr (str ''Transfer request submitted successfully'')),
                      data = Some responseData\<rparr>)))"

text \<open>
  The credentials of \<^verbatim>\<open>process.env\<close>; \<open>None\<close> is an unset variable. In
  \<^verbatim>\<open>!username\<close> an unset variable and the empty string are both falsy.
\<close>

record env =
  BESTRX_USERNAME :: "jsstring option"
  BESTRX_API_KEY :: "jsstring option"
  BESTRX_PASSWORD :: "jsstring option"
  BESTRX_PHARMACY_NUMBER :: "jsstring option"

definition env_truthy :: "jsstring option \<Rightarrow> bool" where
  "env_truthy v = (case v of None \<Rightarrow> False | Some s \<Rightarrow> s \<noteq> [])"

text \<open>
  What the hooks throw is always an \<^verbatim>\<open>Error\<close> instance, of which the \<^verbatim>\<open>catch\<close> block
  reads the message only. \<open>EngineText\<close> is a message whose text the engine chooses (of
  a TypeError or DOMException it raises, or the source text of a built-in function).
  \<open>new_Error\<close> is what \<^verbatim>\<open>throw new Error(m)\<close> throws: the constructor converts \<open>m\<close>
  to a string, and when that conversion throws, its TypeError is thrown instead.
\<close>

datatype error_message = Message jsstring | EngineText

definition new_Error :: "jsval \<Rightarrow> error_message" where
  "new_Error m =
     (case m of
        Undefined \<Rightarrow> Message []
      | Val v \<Rightarrow> (case to_string v of Inl e \<Rightarrow> EngineText | Inr text \<Rightarrow> Message text)
      | Inherited k \<Rightarrow>
          if k = str ''__proto__'' then Message (str ''[object Object]'') else EngineText)"

datatype SubmissionStatus = StatusIdle | StatusSubmitting | StatusSuccess | StatusError

text \<open>
  The React state of a hook, and a run of its \<^verbatim>\<open>submit\<close>: the state it leaves, what the
  promise settles to (\<open>Inl\<close> rejected with this error, \<open>Inr\<close> resolved to
  \<^verbatim>\<open>result.data\<close>), and the effects in order.
\<close>

record hook_state =
  status :: SubmissionStatus
  error :: "error_message option"

record submit_run =
  final :: hook_state
  settled :: "error_message + json option"
  effects :: "effect list"

definition not_configured :: error_message where
  "not_configured =
     Message (str ''Pharmacy service is not properly configured. Please contact support.'')"

text \<open>The \<^verbatim>\<open>catch\<close> block of a hook: \<^verbatim>\<open>setError\<close>, \<^verbatim>\<open>setStatus("error")\<close>, rethrow.\<close>

definition catch_block :: "hook_state \<Rightarrow> error_message \<Rightarrow> effect list \<Rightarrow> submit_run" where
  "catch_block s err effs =
     \<lparr>final = s\<lparr>error := Some err, status := StatusError\<rparr>, settled = Inl err, effects = effs\<rparr>"

definition refill_rpc_call :: "RefillFormData \<Rightarrow> rpc_call" where
  "refill_rpc_call form =
     RpcCall (str ''submit_refill_request'')
       [(str ''p_patient_name'', JStr (patientName form)),
        (str ''p_dob'', JStr (dob form)),
        (str ''p_phone'', JStr (phone form)),
        (str ''p_email'', JStr (or_string (email form) [])),
        (str ''p_prescription_numbers'', JStr (prescriptionNumbers form)),
        (str ''p_medication_names'', JStr (medicationNames form)),
        (str ''p_preferred_service'', JStr (preferredService form)),
        (str ''p_notes'', JStr (or_string (notes_opt form) [])),
        (str ''p_consent'', JBool (consent form))]"

definition transfer_rpc_call :: "TransferFormData \<Rightarrow> rpc_call" where
  "transfer_rpc_call form =
     RpcCall (str ''submit_transfer_request'')
       [(str ''p_rx_number'', JStr (rxNumber form)),
        (str ''p_rx_fill_date'', JStr (rxFillDate form)),
        (str ''p_transfer_to_pharmacy_name'', JStr (transferToPharmacyName form)),
        (str ''p_transfer_to_pharmacy_address1'', JStr (transferToPharmacyAddress1 form)),
        (str ''p_transfer_to_pharmacy_address2'',
           JStr (or_string (transferToPharmacyAddress2 form) [])),
        (str ''p_transfer_to_pharmacy_city'', JStr (transferToPharmacyCity form)),
        (str ''p_transfer_to_pharmacy_state'', JStr (transferToPharmacyState form)),
        (str ''p_transfer_to_pharmacy_zip'', JStr (transferToPharmacyZip form)),
        (str ''p_transfer_to_pharmacy_phone'', JStr (transferToPharmacyPhone form)),
        (str ''p_transfer_to_pharmacy_ncpdp'',
           JStr (or_string (transferToPharmacyNCPDP form) [])),
        (str ''p_transfer_rx_remark'', JStr (or_string (transferRxRemark form) [])),
        (str ''p_consent'', JBool (transferConsent form))]"

text \<open>
  The audit write inside its own \<^verbatim>\<open>try\<close>: a rejection is logged with
  \<^verbatim>\<open>console.warn\<close>, a resolved value is not looked at.
\<close>

definition audit_write :: "world \<Rightarrow> rpc_call \<Rightarrow> effect list" where
  "audit_write w call =
     (case rpc w call of
        RpcRejected \<Rightarrow> [NetRpc call, ConsoleWarn]
      | RpcResolved rpcError \<Rightarrow> [NetRpc call])"

text \<open>
  \<^verbatim>\<open>submit\<close> of \<^verbatim>\<open>useRefillFormSubmission\<close>, started in state \<open>s0\<close>. Past the
  test of the credentials each of them is a non-empty string, which \<open>or_string\<close> reads.
\<close>

definition useRefillFormSubmission_submit ::
  "world \<Rightarrow> env \<Rightarrow> hook_state \<Rightarrow> RefillFormData \<Rightarrow> submit_run" where
  "useRefillFormSubmission_submit w e s0 form =
     (let s1 = s0\<lparr>status := StatusSubmitting, error := None\<rparr>;
          username = BESTRX_USERNAME e;
          apiKey = BESTRX_API_KEY e;
          pharmacyNumber = BESTRX_PHARMACY_NUMBER e
      in if \<not> env_truthy username \<or> \<not> env_truthy apiKey \<or> \<not> env_truthy pharmacyNumber
         then catch_block s1 not_configured []
         else
           (let payload = buildRefillRequestPayload form
                            (or_string pharmacyNumber []) (or_string apiKey [])
                            (or_string username []);
                (primary_effects, result) = submitRefillToBestRX w payload
            in if \<not> success result
               then catch_block s1 (new_Error (message result)) primary_effects
               else
                 \<lparr>final = s1\<lparr>status := StatusSuccess\<rparr>,
                  settled = Inr (data result),
                  effects = primary_effects @ audit_write w (refill_rpc_call form)\<rparr>))"

text \<open>\<^verbatim>\<open>submit\<close> of \<^verbatim>\<open>useTransferFormSubmission\<close>, started in state \<open>s0\<close>.\<close>

definition useTransferFormSubmission_submit ::
  "world \<Rightarrow> env \<Rightarrow> hook_state \<Rightarrow> TransferFormData \<Rightarrow> submit_run" where
  "useTransferFormSubmission_submit w e s0 form =
     (let s1 = s0\<lparr>status := StatusSubmitting, error := None\<rparr>;
          username = BESTRX_USERNAME e;
          password = BESTRX_PASSWORD e;
          pharmacyNumber = BESTRX_PHARMACY_NUMBER e
      in if \<not> env_truthy username \<or> \<not> env_truthy password \<or> \<not> env_truthy pharmacyNumber
         then catch_block s1 not_configured []
         else
           (let payload = buildTransferRequestPayload (now_iso w) form
                            (or_string pharmacyNumber [])
            in case buildBasicAuthHeader (btoa w) (or_string username [])
                      (or_string password []) of
                 None \<Rightarrow> catch_block s1 EngineText []
               | Some authHeader \<Rightarrow>
                   (let (primary_effects, result) = submitTransferToBestRX w payload authHeader
                    in if \<not> success result
                       then catch_block s1 (new_Error (message result)) primary_effects
                       else
                         \<lparr>final = s1\<lparr>status := StatusSuccess\<rparr>,
                          settled = Inr (data result),
                          effects = primary_effects @ audit_write w (transfer_rpc_call form)\<rparr>)))"


section \<open>Concrete inputs\<close>

definition example_refill_response :: json where
  "example_refill_response =
     JObj [(str ''RxInRefillResponse'',
            JArr [JObj [(str ''RxNumber'', JStr (str ''111'')),
                        (str ''Status'', JStr (str ''FAILED'')),
                        (str ''ErrorCode'', JStr (str ''ERROR_RX_NOT_FOUND''))],
                  JObj [(str ''RxNumber'', JStr (str ''222'')),
                        (str ''Status'', JStr (str ''OK''))]])]"

definition example_transfer_response :: json where
  "example_transfer_response =
     JObj [(str ''IsValid'', JBool True), (str ''RxTransferred'', JBool True)]"

definition example_transfer_form :: TransferFormData where
  "example_transfer_form =
     \<lparr>rxNumber = str ''4455'', rxFillDate = str ''2024-01-02'',
      transferToPharmacyName = str ''Main St Pharmacy'',
      transferToPharmacyAddress1 = str ''1 Main St'',
      transferToPharmacyAddress2 = None,
      transferToPharmacyCity = str ''Columbus'',
      transferToPharmacyState = str ''OH'',
      transferToPharmacyZip = str ''43004'',
      transferToPharmacyPhone = str ''(614) 555-1234'',
      transferToPharmacyNCPDP = None,
      transferRxRemark = None,
      transferConsent = True\<rparr>"

text \<open>
  A world in which both BestRX endpoints answer 200 with a success body and the audit
  write is rejected.
\<close>

definition example_world :: world where
  "example_world =
     \<lparr>fetch = (\<lambda>r. case r of
                    Post url headers (RefillBody p) \<Rightarrow>
                      FetchResponse 200 (Some example_refill_response)
                  | Post url headers (TransferBody p) \<Rightarrow>
                      FetchResponse 200 (Some example_transfer_response)),
      rpc = (\<lambda>c. RpcRejected),
      btoa = (\<lambda>s. if s = str ''user:pw'' then Some (str ''dXNlcjpwdw=='') else None),
      now_iso = str ''2024-01-15T10:30:00.000Z''\<rparr>"

definition example_env :: env where
  "example_env =
     \<lparr>BESTRX_USERNAME = Some (str ''user''), BESTRX_API_KEY = Some (str ''key''),
      BESTRX_PASSWORD = Some (str ''pw''), BESTRX_PHARMACY_NUMBER = Some (str ''1234567'')\<rparr>"

definition idle_state :: hook_state where
  "idle_state = \<lparr>status = StatusIdle, error = None\<rparr>"


section \<open>Facts about the string operations\<close>

lemma replace_all_class_empty: "replace_all_class cls [] s = filter (\<lambda>c. \<not> cls c) s"
  by (induction s) simp_all

lemma split_from_not_Nil: "split_from sep piece s \<noteq> []"
  by (induction s arbitrary: piece) simp_all

lemma split_from_no_sep: "sep \<notin> set s \<Longrightarrow> split_from sep piece s = [piece @ s]"
  by (induction s arbitrary: piece) auto

lemma last_split_from:
  "last (split_from sep piece s) =
     (if sep \<in> set s then rev (takeWhile (\<lambda>c. c \<noteq> sep) (rev s)) else piece @ s)"
proof (induction s arbitrary: piece)
  case Nil
  show ?case by simp
next
  case (Cons c cs)
  show ?case
  proof (cases "c = sep")
    case True
    then show ?thesis
      using Cons.IH [of "[]"] split_from_not_Nil [of sep "[]" cs]
      by (simp add: takeWhile_append)
  next
    case False
    then show ?thesis
      using Cons.IH [of "piece @ [c]"]
      by (auto simp add: takeWhile_append)
  qed
qed

lemma after_last_space_no_space: "space \<notin> set s \<Longrightarrow> after_last_space s = s"
proof -
  assume "space \<notin> set s"
  then have "takeWhile (\<lambda>c. c \<noteq> space) (rev s) = rev s"
    by (intro takeWhile_eq_all_conv [THEN iffD2]) auto
  then show ?thesis
    by (simp only: after_last_space_def rev_rev_ident)
qed

lemma last_js_split_space: "last (js_split space s) = after_last_space s"
  by (simp add: js_split_def last_split_from after_last_space_no_space)
    (simp add: after_last_space_def)

lemma LastName_eq:
  "LastName (buildRefillRequestPayload formData pharmacyNumber apiKey username)
     = (if after_last_space (patientName formData) = [] then patientName formData
        else after_last_space (patientName formData))"
  by (simp add: buildRefillRequestPayload_def Let_def js_pop_def last_js_split_space or_string_def)
    (simp add: js_split_def split_from_not_Nil)

text \<open>
  A tab is white space but not the separator of \<^verbatim>\<open>split(' ')\<close>: a name whose parts
  are separated by a tab is sent whole.
\<close>

lemma LastName_tab_not_split:
  "final_whitespace_token (str ''John'' @ tab # str ''Smith'') = Some (str ''Smith'')
   \<and> LastName (buildRefillRequestPayload
         (example_refill_form\<lparr>patientName := str ''John'' @ tab # str ''Smith''\<rparr>)
         (str ''1234567'') (str ''key'') (str ''user'')) = str ''John'' @ tab # str ''Smith''"
  by (simp add: final_whitespace_token_def LastName_eq after_last_space_def
      example_refill_form_def str_def tab_def space_def is_white_space_def js_pop_def)

lemma trim_around:
  assumes "\<exists>c\<in>set a. \<not> is_white_space c" and "\<exists>c\<in>set b. \<not> is_white_space c"
  shows "js_trim (a @ x # b)
           = dropWhile is_white_space a @ x # rev (dropWhile is_white_space (rev b))"
proof -
  have front: "dropWhile is_white_space (a @ x # b) = dropWhile is_white_space a @ x # b"
    using assms(1) by (auto simp add: dropWhile_append)
  have rear: "dropWhile is_white_space (rev b @ x # rev (dropWhile is_white_space a))
     = dropWhile is_white_space (rev b) @ x # rev (dropWhile is_white_space a)"
    using assms(2) by (auto simp add: dropWhile_append)
  show ?thesis
    by (simp add: js_trim_def front rear)
qed

lemmas string_eval =
  str_def comma_def space_def newline_def tab_def is_white_space_def js_split_def js_trim_def
  js_pop_def js_index_def or_string_def


section \<open>Facts about the response predicates\<close>

lemma js_some_iff: "js_some p xs = (\<exists>x\<in>set xs. p x)"
  by (induction xs) auto

lemma strict_eq_string_iff: "strict_eq_string v s = (v = Some (JStr s))"
  by (cases "(v, s)" rule: strict_eq_string.cases) auto

lemma strict_eq_true_iff: "strict_eq_true v = (v = Some (JBool True))"
  by (cases v rule: strict_eq_true.cases) auto

lemma response_fields_not_inherited:
  "set response_field_names \<inter> set object_prototype_members = {}"
  by (simp add: response_field_names_def object_prototype_members_def str_def)

lemmas table_eval =
  mapBestRXError_def opt_truthy_def js_String_def object_get_def BESTRX_ERROR_CODES_def
  object_prototype_members_def js_or_def


text \<open>What \<open>mapBestRXError\<close> returns without a code, and for a code that is not inherited.\<close>

lemma table_values_truthy:
  "map_of BESTRX_ERROR_CODES key = Some v \<Longrightarrow> \<exists>m. v = JStr m \<and> m \<noteq> []"
  by (auto simp add: BESTRX_ERROR_CODES_def str_def split: if_splits)

lemma generic_entry:
  "object_get BESTRX_ERROR_CODES (str ''ERROR_GENERIC'')
     = Val (JStr (str ''An error occurred while processing your request. Please try again.''))"
  by (simp add: object_get_def BESTRX_ERROR_CODES_def str_def)

lemma mapBestRXError_no_code:
  "mapBestRXError None httpStatus =
     Inr (Val (JStr
       (if httpStatus = Some 400
        then str ''Invalid request. Please check your information and try again.''
        else if httpStatus = Some 403
        then str ''Authentication failed. Please contact support.''
        else if httpStatus = Some 500
        then str ''Service temporarily unavailable. Please try again later.''
        else str ''An error occurred while processing your request. Please try again.'')))"
  by (simp add: mapBestRXError_def opt_truthy_def generic_entry)

lemma mapBestRXError_own_code:
  assumes "code \<noteq> []" and "code \<notin> set object_prototype_members"
  shows "mapBestRXError (Some (JStr code)) httpStatus =
     Inr (Val (case map_of BESTRX_ERROR_CODES code of
                 Some text \<Rightarrow> text
               | None \<Rightarrow> JStr (str
                   ''An error occurred while processing your request. Please try again.'')))"
proof (cases "map_of BESTRX_ERROR_CODES code")
  case None
  with assms show ?thesis
    by (simp add: mapBestRXError_def opt_truthy_def js_String_def js_or_def generic_entry)
      (simp add: object_get_def)
next
  case (Some v)
  then obtain m where "v = JStr m" "m \<noteq> []"
    using table_values_truthy by blast
  with Some assms show ?thesis
    by (simp add: mapBestRXError_def opt_truthy_def js_String_def js_or_def generic_entry)
      (simp add: object_get_def)
qed

text \<open>
  The two extractors on an object body without error code and message, and what the
  callers make of it when the status is 403.
\<close>

lemma extractTransferErrorMessage_object:
  "extractTransferErrorMessage (JObj ps) =
     (if opt_truthy (map_of ps (str ''ErrorCode''))
      then mapBestRXError (map_of ps (str ''ErrorCode'')) None
      else if opt_truthy (map_of ps (str ''ErrorMessage''))
      then Inr (opt_val (map_of ps (str ''ErrorMessage'')))
      else Inr (Val (JStr (str
             ''An error occurred while processing your request. Please try again.''))))"
  by (simp add: extractTransferErrorMessage_def Let_def mapBestRXError_no_code)

lemma extractRefillErrorMessage_empty_object:
  "extractRefillErrorMessage (JObj []) = Inr (Val JNull)"
  by (simp add: extractRefillErrorMessage_def)

lemma refill_403_empty_object:
  assumes "fetch w (refill_request p) = FetchResponse 403 (Some (JObj []))"
  shows "message (snd (submitRefillToBestRX w p))
           = Val (JStr (str ''Authentication failed. Please contact support.''))"
  using assms
  by (simp add: submitRefillToBestRX_def response_ok_def extractRefillErrorMessage_empty_object
      mapBestRXError_no_code)

lemma transfer_403_empty_object:
  assumes "fetch w (transfer_request p h) = FetchResponse 403 (Some (JObj []))"
  shows "message (snd (submitTransferToBestRX w p h))
           = Val (JStr (str ''An error occurred while processing your request. Please try again.''))"
  using assms
  by (simp add: submitTransferToBestRX_def response_ok_def extractTransferErrorMessage_object
      opt_truthy_def str_def)


section \<open>Facts about the submissions\<close>

lemma submitRefillToBestRX_success:
  assumes "success (snd (submitRefillToBestRX w p))"
  shows "\<exists>st body. fetch w (refill_request p) = FetchResponse st (Some body)
           \<and> response_ok st \<and> validateRefillResponse body
           \<and> submitRefillToBestRX w p =
               ([NetFetch (refill_request p)],
                \<lparr>success = True,
                 message = Val (JStr (str ''Refill request submitted successfully'')),
                 data = Some body\<rparr>)"
  using assms
  by (auto simp add: submitRefillToBestRX_def Let_def connection_failure_def
      split: fetch_outcome.splits option.splits sum.splits if_splits)

lemma submitTransferToBestRX_success:
  assumes "success (snd (submitTransferToBestRX w p h))"
  shows "\<exists>st body. fetch w (transfer_request p h) = FetchResponse st (Some body)
           \<and> response_ok st \<and> validateTransferResponse body
           \<and> submitTransferToBestRX w p h =
               ([NetFetch (transfer_request p h)],
                \<lparr>success = True,
                 message = Val (JStr (str ''Transfer request submitted successfully'')),
                 data = Some body\<rparr>)"
  using assms
  by (auto simp add: submitTransferToBestRX_def Let_def connection_failure_def
      split: fetch_outcome.splits option.splits sum.splits if_splits)

lemma submit_rpc_irrelevant:
  "submitRefillToBestRX (w\<lparr>rpc := audit\<rparr>) p = submitRefillToBestRX w p"
  "submitTransferToBestRX (w\<lparr>rpc := audit\<rparr>) q h = submitTransferToBestRX w q h"
  by (simp_all add: submitRefillToBestRX_def submitTransferToBestRX_def)

lemma example_refill_primary:
  "submitRefillToBestRX example_world p =
     ([NetFetch (refill_request p)],
      \<lparr>success = True,
       message = Val (JStr (str ''Refill request submitted successfully'')),
       data = Some example_refill_response\<rparr>)"
proof -
  have "validateRefillResponse example_refill_response"
    by (simp add: validateRefillResponse_def example_refill_response_def str_def)
  then show ?thesis
    by (simp add: submitRefillToBestRX_def example_world_def refill_request_def response_ok_def)
qed

lemma example_transfer_primary:
  "submitTransferToBestRX example_world p h =
     ([NetFetch (transfer_request p h)],
      \<lparr>success = True,
       message = Val (JStr (str ''Transfer request submitted successfully'')),
       data = Some example_transfer_response\<rparr>)"
proof -
  have "validateTransferResponse example_transfer_response"
    by (simp add: validateTransferResponse_def example_transfer_response_def str_def)
  then show ?thesis
    by (simp add: submitTransferToBestRX_def example_world_def transfer_request_def response_ok_def)
qed


section \<open>Payload mapper\<close>

text \<open>
  Claim C9. For every input string \<open>formatPhoneForBestRX\<close> returns the string with every
  code unit that is not a digit removed, so \<^verbatim>\<open>(614) 555-1234\<close> becomes \<^verbatim>\<open>6145551234\<close>,
  and applying it twice gives the same as applying it once.
\<close>

theorem formatPhoneForBestRX_digits_idempotent:
  "formatPhoneForBestRX s = filter is_digit s
   \<and> formatPhoneForBestRX (formatPhoneForBestRX s) = formatPhoneForBestRX s
   \<and> formatPhoneForBestRX (str ''(614) 555-1234'') = str ''6145551234''"
proof (intro conjI)
  show "formatPhoneForBestRX s = filter is_digit s"
    by (simp add: formatPhoneForBestRX_def replace_all_class_empty)
  then show "formatPhoneForBestRX (formatPhoneForBestRX s) = formatPhoneForBestRX s"
    by (simp add: formatPhoneForBestRX_def replace_all_class_empty)
  show "formatPhoneForBestRX (str ''(614) 555-1234'') = str ''6145551234''"
    by (simp add: formatPhoneForBestRX_def str_def is_digit_def)
qed

theorem formatPhoneForBestRX_digits_idempotent_witness:
  "formatPhoneForBestRX (str ''+1 614.555.1234 x9'') = str ''161455512349''
   \<and> formatPhoneForBestRX (formatPhoneForBestRX (str ''+1 614.555.1234 x9''))
       = str ''161455512349''"
  using formatPhoneForBestRX_digits_idempotent [of "str ''+1 614.555.1234 x9''"]
  by (simp add: str_def is_digit_def formatPhoneForBestRX_def)

text \<open>
  Claim C2. For every refill form the \<open>RxInRefillRequest\<close> array built by
  \<open>buildRefillRequestPayload\<close> has as many entries as \<open>prescriptionNumbers\<close> has non-empty
  trimmed comma-separated tokens, however many medication tokens there are; entry \<open>i\<close>
  pairs prescription token \<open>i\<close> with medication token \<open>i\<close>, or with the empty string when
  there is no medication token at that index.
\<close>

theorem refill_items_pair_by_index:
  "length (RxInRefillRequest (buildRefillRequestPayload formData pharmacyNumber apiKey username))
     = length (nonempty_trimmed_tokens (prescriptionNumbers formData))
   \<and> (\<forall>i < length (nonempty_trimmed_tokens (prescriptionNumbers formData)).
        RxInRefillRequest (buildRefillRequestPayload formData pharmacyNumber apiKey username) ! i
          = \<lparr>RxNumber = nonempty_trimmed_tokens (prescriptionNumbers formData) ! i,
             MedicationName =
               (if i < length (nonempty_trimmed_tokens (medicationNames formData))
                then nonempty_trimmed_tokens (medicationNames formData) ! i else [])\<rparr>)"
  by (simp add: buildRefillRequestPayload_def Let_def nonempty_trimmed_tokens_def
      nth_enumerate_eq js_index_def or_string_def)

text \<open>
  The scenario of the claim: \<open>prescriptionNumbers\<close> is \<^verbatim>\<open>111, 222\<close> and
  \<open>medicationNames\<close> is \<^verbatim>\<open>Drug A\<close>.
\<close>

theorem refill_items_pair_by_index_witness:
  "RxInRefillRequest
     (buildRefillRequestPayload example_refill_form (str ''1234567'') (str ''key'') (str ''user''))
    = [\<lparr>RxNumber = str ''111'', MedicationName = str ''Drug A''\<rparr>,
       \<lparr>RxNumber = str ''222'', MedicationName = []\<rparr>]"
proof -
  let ?items = "RxInRefillRequest
     (buildRefillRequestPayload example_refill_form (str ''1234567'') (str ''key'') (str ''user''))"
  have pn: "nonempty_trimmed_tokens (prescriptionNumbers example_refill_form)
              = [str ''111'', str ''222'']"
    and mn: "nonempty_trimmed_tokens (medicationNames example_refill_form) = [str ''Drug A'']"
    by (simp_all add: example_refill_form_def nonempty_trimmed_tokens_def string_eval)
  from refill_items_pair_by_index
         [of example_refill_form "str ''1234567''" "str ''key''" "str ''user''"]
  have len: "length ?items = 2"
    and nth: "\<forall>i<2. ?items ! i = \<lparr>RxNumber = [str ''111'', str ''222''] ! i,
       MedicationName = (if i < 1 then [str ''Drug A''] ! i else [])\<rparr>"
    unfolding pn mn by simp_all
  from nth have "?items ! 0 = \<lparr>RxNumber = str ''111'', MedicationName = str ''Drug A''\<rparr>"
    and "?items ! 1 = \<lparr>RxNumber = str ''222'', MedicationName = []\<rparr>"
    by simp_all
  with len show ?thesis
    by (simp add: list_eq_iff_nth_eq less_Suc_eq numeral_2_eq_2)
qed

text \<open>
  Claim C8 says that \<open>LastName\<close> is the final whitespace-separated token of
  \<open>patientName\<close>. For a name that ends in a space, \<^verbatim>\<open>split(' ')\<close> leaves an empty
  last piece, which \<^verbatim>\<open>pop()\<close> returns, and the \<^verbatim>\<open>||\<close> then takes the whole
  \<open>patientName\<close>: the code sends the first name and the trailing space as the last name,
  where the token lists of the same function are trimmed and lose their empty pieces.
\<close>

theorem LastName_trailing_space:
  "final_whitespace_token (str ''John Smith '') = Some (str ''Smith'')
   \<and> LastName (buildRefillRequestPayload
         (example_refill_form\<lparr>patientName := str ''John Smith ''\<rparr>)
         (str ''1234567'') (str ''key'') (str ''user'')) = str ''John Smith ''
   \<and> Some (LastName (buildRefillRequestPayload
         (example_refill_form\<lparr>patientName := str ''John Smith ''\<rparr>)
         (str ''1234567'') (str ''key'') (str ''user'')))
       \<noteq> final_whitespace_token (str ''John Smith '')"
  by (simp add: final_whitespace_token_def buildRefillRequestPayload_def Let_def string_eval
      example_refill_form_def)

theorem LastName_trailing_space_witness:
  "LastName (buildRefillRequestPayload
      (example_refill_form\<lparr>patientName := str ''John Smith ''\<rparr>)
      (str ''1234567'') (str ''key'') (str ''user'')) \<noteq> str ''Smith''"
  using LastName_trailing_space by (simp add: str_def)

text \<open>
  Claim C10. \<open>buildRefillRequestPayload\<close> splits on the comma only: when
  \<open>prescriptionNumbers\<close> holds two entries separated by a newline and no comma, the
  result is a single \<open>RxInRefillRequest\<close> entry whose \<open>RxNumber\<close> keeps the newline
  between them.
\<close>

theorem newline_separated_numbers_single_entry:
  assumes "prescriptionNumbers formData = a @ newline # b"
    and "comma \<notin> set a" and "comma \<notin> set b"
    and "\<exists>c\<in>set a. \<not> is_white_space c" and "\<exists>c\<in>set b. \<not> is_white_space c"
  shows "RxInRefillRequest (buildRefillRequestPayload formData pharmacyNumber apiKey username)
     = [\<lparr>RxNumber =
           dropWhile is_white_space a @ newline # rev (dropWhile is_white_space (rev b)),
         MedicationName =
           or_string (js_index (nonempty_trimmed_tokens (medicationNames formData)) 0) []\<rparr>]"
proof -
  have "comma \<notin> set (prescriptionNumbers formData)"
    using assms(1-3) by (simp add: comma_def newline_def)
  then have "js_split comma (prescriptionNumbers formData) = [a @ newline # b]"
    using assms(1) by (simp add: js_split_def split_from_no_sep)
  then show ?thesis
    by (simp add: buildRefillRequestPayload_def Let_def trim_around [OF assms(4,5)]
        nonempty_trimmed_tokens_def)
qed

theorem newline_separated_numbers_single_entry_witness:
  "RxInRefillRequest
     (buildRefillRequestPayload
        (example_refill_form\<lparr>prescriptionNumbers := str ''111'' @ newline # str ''222''\<rparr>)
        (str ''1234567'') (str ''key'') (str ''user''))
    = [\<lparr>RxNumber = str ''111'' @ newline # str ''222'', MedicationName = str ''Drug A''\<rparr>]"
proof -
  let ?form = "example_refill_form\<lparr>prescriptionNumbers := str ''111'' @ newline # str ''222''\<rparr>"
  have 1: "prescriptionNumbers ?form = str ''111'' @ newline # str ''222''"
    by simp
  have 2: "comma \<notin> set (str ''111'')" and 3: "comma \<notin> set (str ''222'')"
    by (simp_all add: string_eval)
  have 4: "\<exists>c\<in>set (str ''111''). \<not> is_white_space c"
    and 5: "\<exists>c\<in>set (str ''222''). \<not> is_white_space c"
    by (simp_all add: string_eval)
  have "nonempty_trimmed_tokens (medicationNames ?form) = [str ''Drug A'']"
    by (simp add: example_refill_form_def nonempty_trimmed_tokens_def string_eval)
  with newline_separated_numbers_single_entry [OF 1 2 3 4 5, of "str ''1234567''" "str ''key''" "str ''user''"]
  show ?thesis
    by (simp add: string_eval)
qed

section \<open>Response and error normaliser\<close>

text \<open>
  Claim C6. For every response body \<open>validateRefillResponse\<close> is true if and only if
  the body is an object whose field \<open>RxInRefillResponse\<close> is an array with at least one
  object entry whose field \<open>Status\<close> is the string \<^verbatim>\<open>OK\<close>. A missing field, a value that
  is not an array, an empty array and an array without such an entry are therefore
  rejected, and an array mixing successes and failures is accepted.
\<close>

theorem validateRefillResponse_iff:
  "validateRefillResponse response =
     (\<exists>ps xs qs. response = JObj ps
        \<and> map_of ps (str ''RxInRefillResponse'') = Some (JArr xs)
        \<and> JObj qs \<in> set xs
        \<and> map_of qs (str ''Status'') = Some (JStr (str ''OK'')))"
proof (cases response)
  case (JObj ps)
  show ?thesis
  proof (cases "map_of ps (str ''RxInRefillResponse'')" rule: is_array.cases)
    case (1 xs)
    have "(\<exists>x\<in>set xs. js_typeof x = TObject \<and> x \<noteq> JNull \<and>
             js_field x (str ''Status'') = Some (JStr (str ''OK'')))
        = (\<exists>qs. JObj qs \<in> set xs \<and> map_of qs (str ''Status'') = Some (JStr (str ''OK'')))"
      (is "?code = ?spec")
    proof
      assume ?code
      then obtain x where x: "x \<in> set xs" "js_field x (str ''Status'') = Some (JStr (str ''OK''))"
        by blast
      from x(2) obtain qs where "x = JObj qs"
        by (cases x) simp_all
      with x show ?spec by auto
    next
      assume ?spec
      then show ?code by force
    qed
    with JObj 1 show ?thesis
      by (simp add: validateRefillResponse_def js_some_iff strict_eq_string_iff)
  qed (simp_all add: JObj validateRefillResponse_def)
qed (simp_all add: validateRefillResponse_def)

theorem validateRefillResponse_iff_witness:
  "validateRefillResponse example_refill_response
   \<and> \<not> validateRefillResponse (JObj [(str ''RxInRefillResponse'', JArr [])])
   \<and> \<not> validateRefillResponse (JObj [])
   \<and> \<not> validateRefillResponse (JObj [(str ''RxInRefillResponse'', JStr (str ''OK''))])
   \<and> \<not> validateRefillResponse
         (JObj [(str ''RxInRefillResponse'', JArr [JObj [(str ''Status'', JStr (str ''FAILED''))]])])"
proof (intro conjI)
  have "\<exists>ps xs qs. example_refill_response = JObj ps
        \<and> map_of ps (str ''RxInRefillResponse'') = Some (JArr xs)
        \<and> JObj qs \<in> set xs
        \<and> map_of qs (str ''Status'') = Some (JStr (str ''OK''))"
    by (auto simp add: example_refill_response_def str_def)
  then show "validateRefillResponse example_refill_response"
    by (simp only: validateRefillResponse_iff)
  show "\<not> validateRefillResponse (JObj [(str ''RxInRefillResponse'', JArr [])])"
    by (simp add: validateRefillResponse_iff)
  show "\<not> validateRefillResponse (JObj [])"
    by (simp add: validateRefillResponse_iff)
  show "\<not> validateRefillResponse (JObj [(str ''RxInRefillResponse'', JStr (str ''OK''))])"
    by (simp add: validateRefillResponse_iff)
  show "\<not> validateRefillResponse
         (JObj [(str ''RxInRefillResponse'', JArr [JObj [(str ''Status'', JStr (str ''FAILED''))]])])"
    by (simp add: validateRefillResponse_iff str_def)
qed

text \<open>
  Claim C7. For every response body \<open>validateTransferResponse\<close> is true if and only if
  the body is an object whose fields \<open>IsValid\<close> and \<open>RxTransferred\<close> are both the boolean
  \<^verbatim>\<open>true\<close>; a flag that is false, missing, or a truthy value other than the boolean is
  rejected.
\<close>

theorem validateTransferResponse_iff:
  "validateTransferResponse response =
     (\<exists>ps. response = JObj ps
        \<and> map_of ps (str ''IsValid'') = Some (JBool True)
        \<and> map_of ps (str ''RxTransferred'') = Some (JBool True))"
  by (cases response) (simp_all add: validateTransferResponse_def strict_eq_true_iff)

theorem validateTransferResponse_iff_witness:
  "validateTransferResponse example_transfer_response
   \<and> \<not> validateTransferResponse
         (JObj [(str ''IsValid'', JBool True), (str ''RxTransferred'', JBool False)])
   \<and> \<not> validateTransferResponse (JObj [(str ''IsValid'', JBool True)])
   \<and> \<not> validateTransferResponse
         (JObj [(str ''IsValid'', JNum (str ''1'')), (str ''RxTransferred'', JStr (str ''true''))])"
proof (intro conjI)
  have "\<exists>ps. example_transfer_response = JObj ps
        \<and> map_of ps (str ''IsValid'') = Some (JBool True)
        \<and> map_of ps (str ''RxTransferred'') = Some (JBool True)"
    by (simp add: example_transfer_response_def str_def)
  then show "validateTransferResponse example_transfer_response"
    by (simp only: validateTransferResponse_iff)
  show "\<not> validateTransferResponse
         (JObj [(str ''IsValid'', JBool True), (str ''RxTransferred'', JBool False)])"
    by (simp add: validateTransferResponse_iff str_def)
  show "\<not> validateTransferResponse (JObj [(str ''IsValid'', JBool True)])"
    by (simp add: validateTransferResponse_iff str_def)
  show "\<not> validateTransferResponse
         (JObj [(str ''IsValid'', JNum (str ''1'')), (str ''RxTransferred'', JStr (str ''true''))])"
    by (simp add: validateTransferResponse_iff str_def)
qed

text \<open>
  Claim C4 says that \<open>mapBestRXError\<close> returns a non-empty string for every error code,
  the text of \<^verbatim>\<open>ERROR_GENERIC\<close> when the code is not in the table. The table is an object
  literal read with \<^verbatim>\<open>BESTRX_ERROR_CODES[errorCode]\<close>, so a code that names a member of
  \<^verbatim>\<open>Object.prototype\<close> finds that member: for the code \<^verbatim>\<open>constructor\<close> the function
  returns the inherited \<^verbatim>\<open>constructor\<close>, which is truthy and not a string.
\<close>

theorem mapBestRXError_inherited_member:
  "mapBestRXError (Some (JStr (str ''constructor''))) None = Inr (Inherited (str ''constructor''))"
  by (simp add: table_eval str_def)

theorem mapBestRXError_inherited_member_witness:
  "mapBestRXError (Some (JStr (str ''constructor''))) None
     \<noteq> Inr (Val (JStr (str
           ''An error occurred while processing your request. Please try again.'')))"
  using mapBestRXError_inherited_member by simp

text \<open>
  Claim C5 says that \<open>extractTransferErrorMessage\<close> reports no message when the body
  carries neither an error code nor an error message. For an object body the code
  returns the text of \<^verbatim>\<open>ERROR_GENERIC\<close> instead, here on the empty object.
\<close>

theorem extractTransferErrorMessage_empty_object:
  "extractTransferErrorMessage (JObj [])
     = Inr (Val (JStr (str ''An error occurred while processing your request. Please try again.'')))"
  by (simp add: extractTransferErrorMessage_def table_eval str_def)

theorem extractTransferErrorMessage_empty_object_witness:
  "extractTransferErrorMessage (JObj []) \<noteq> Inr (Val JNull)"
  using extractTransferErrorMessage_empty_object by simp


section \<open>Submission orchestrator\<close>

text \<open>
  Claim C3. When a credential the submission needs is absent from the configuration
  (user name, API key or pharmacy number for a refill; user name, password or pharmacy
  number for a transfer), \<open>submit\<close> fails with exactly the message \<^verbatim>\<open>Pharmacy service is
  not properly configured. Please contact support.\<close> and performs no effect at all: neither
  the BestRX request nor the audit write is attempted.
\<close>

theorem missing_credential_fails_without_network:
  "(BESTRX_USERNAME e = None \<or> BESTRX_API_KEY e = None \<or> BESTRX_PHARMACY_NUMBER e = None \<longrightarrow>
      useRefillFormSubmission_submit w e s0 refill_form =
        \<lparr>final = \<lparr>status = StatusError,
                   error = Some (Message (str
                     ''Pharmacy service is not properly configured. Please contact support.''))\<rparr>,
         settled = Inl (Message (str
                     ''Pharmacy service is not properly configured. Please contact support.'')),
         effects = []\<rparr>)
   \<and> (BESTRX_USERNAME e = None \<or> BESTRX_PASSWORD e = None \<or> BESTRX_PHARMACY_NUMBER e = None \<longrightarrow>
      useTransferFormSubmission_submit w e s0 transfer_form =
        \<lparr>final = \<lparr>status = StatusError,
                   error = Some (Message (str
                     ''Pharmacy service is not properly configured. Please contact support.''))\<rparr>,
         settled = Inl (Message (str
                     ''Pharmacy service is not properly configured. Please contact support.'')),
         effects = []\<rparr>)"
proof (intro conjI impI)
  assume "BESTRX_USERNAME e = None \<or> BESTRX_API_KEY e = None \<or> BESTRX_PHARMACY_NUMBER e = None"
  then have "\<not> env_truthy (BESTRX_USERNAME e) \<or> \<not> env_truthy (BESTRX_API_KEY e)
      \<or> \<not> env_truthy (BESTRX_PHARMACY_NUMBER e)"
    by (auto simp add: env_truthy_def)
  then show "useRefillFormSubmission_submit w e s0 refill_form =
        \<lparr>final = \<lparr>status = StatusError,
                   error = Some (Message (str
                     ''Pharmacy service is not properly configured. Please contact support.''))\<rparr>,
         settled = Inl (Message (str
                     ''Pharmacy service is not properly configured. Please contact support.'')),
         effects = []\<rparr>"
    by (simp add: useRefillFormSubmission_submit_def Let_def catch_block_def not_configured_def)
next
  assume "BESTRX_USERNAME e = None \<or> BESTRX_PASSWORD e = None \<or> BESTRX_PHARMACY_NUMBER e = None"
  then have "\<not> env_truthy (BESTRX_USERNAME e) \<or> \<not> env_truthy (BESTRX_PASSWORD e)
      \<or> \<not> env_truthy (BESTRX_PHARMACY_NUMBER e)"
    by (auto simp add: env_truthy_def)
  then show "useTransferFormSubmission_submit w e s0 transfer_form =
        \<lparr>final = \<lparr>status = StatusError,
                   error = Some (Message (str
                     ''Pharmacy service is not properly configured. Please contact support.''))\<rparr>,
         settled = Inl (Message (str
                     ''Pharmacy service is not properly configured. Please contact support.'')),
         effects = []\<rparr>"
    by (simp add: useTransferFormSubmission_submit_def Let_def catch_block_def not_configured_def)
qed

text \<open>
  The scenario of the claim: \<^verbatim>\<open>BESTRX_API_KEY\<close> is missing when a refill is submitted, and
  \<^verbatim>\<open>BESTRX_PASSWORD\<close> when a transfer is.
\<close>

theorem missing_credential_fails_without_network_witness:
  "BESTRX_API_KEY (example_env\<lparr>BESTRX_API_KEY := None, BESTRX_PASSWORD := None\<rparr>) = None
   \<and> BESTRX_PASSWORD (example_env\<lparr>BESTRX_API_KEY := None, BESTRX_PASSWORD := None\<rparr>) = None
   \<and> effects (useRefillFormSubmission_submit example_world
        (example_env\<lparr>BESTRX_API_KEY := None, BESTRX_PASSWORD := None\<rparr>)
        idle_state example_refill_form) = []
   \<and> settled (useRefillFormSubmission_submit example_world
        (example_env\<lparr>BESTRX_API_KEY := None, BESTRX_PASSWORD := None\<rparr>)
        idle_state example_refill_form)
       = Inl (Message (str
           ''Pharmacy service is not properly configured. Please contact support.''))
   \<and> effects (useTransferFormSubmission_submit example_world
        (example_env\<lparr>BESTRX_API_KEY := None, BESTRX_PASSWORD := None\<rparr>)
        idle_state example_transfer_form) = []
   \<and> settled (useTransferFormSubmission_submit example_world
        (example_env\<lparr>BESTRX_API_KEY := None, BESTRX_PASSWORD := None\<rparr>)
        idle_state example_transfer_form)
       = Inl (Message (str
           ''Pharmacy service is not properly configured. Please contact support.''))"
proof -
  let ?e = "example_env\<lparr>BESTRX_API_KEY := None, BESTRX_PASSWORD := None\<rparr>"
  have k: "BESTRX_USERNAME ?e = None \<or> BESTRX_API_KEY ?e = None
            \<or> BESTRX_PHARMACY_NUMBER ?e = None"
    and p: "BESTRX_USERNAME ?e = None \<or> BESTRX_PASSWORD ?e = None
            \<or> BESTRX_PHARMACY_NUMBER ?e = None"
    by simp_all
  note inst = missing_credential_fails_without_network
               [of ?e example_world idle_state example_refill_form example_transfer_form]
  from inst [THEN conjunct1, rule_format, OF k] inst [THEN conjunct2, rule_format, OF p]
  show ?thesis
    by simp
qed

text \<open>
  Claim C1. When the credentials are configured and the primary BestRX call succeeds,
  \<open>submit\<close> ends in the success state and resolves to the body of the primary response,
  whatever the audit write does: the same holds for every behaviour \<open>audit\<close> of
  \<^verbatim>\<open>supabase.rpc\<close>, rejecting or resolving with an error included.
\<close>

theorem audit_failure_keeps_primary_result:
  "(BESTRX_USERNAME e = Some username \<and> username \<noteq> []
      \<and> BESTRX_API_KEY e = Some apiKey \<and> apiKey \<noteq> []
      \<and> BESTRX_PHARMACY_NUMBER e = Some pharmacyNumber \<and> pharmacyNumber \<noteq> []
      \<and> success (snd (submitRefillToBestRX w
            (buildRefillRequestPayload refill_form pharmacyNumber apiKey username)))
    \<longrightarrow> (\<exists>st body.
           fetch w (refill_request
               (buildRefillRequestPayload refill_form pharmacyNumber apiKey username))
             = FetchResponse st (Some body)
           \<and> (\<forall>audit.
                final (useRefillFormSubmission_submit (w\<lparr>rpc := audit\<rparr>) e s0 refill_form)
                  = \<lparr>status = StatusSuccess, error = None\<rparr>
                \<and> settled (useRefillFormSubmission_submit (w\<lparr>rpc := audit\<rparr>) e s0 refill_form)
                  = Inr (Some body))))
   \<and> (BESTRX_USERNAME e = Some username \<and> username \<noteq> []
      \<and> BESTRX_PASSWORD e = Some password \<and> password \<noteq> []
      \<and> BESTRX_PHARMACY_NUMBER e = Some pharmacyNumber \<and> pharmacyNumber \<noteq> []
      \<and> buildBasicAuthHeader (btoa w) username password = Some authHeader
      \<and> success (snd (submitTransferToBestRX w
            (buildTransferRequestPayload (now_iso w) transfer_form pharmacyNumber) authHeader))
    \<longrightarrow> (\<exists>st body.
           fetch w (transfer_request
               (buildTransferRequestPayload (now_iso w) transfer_form pharmacyNumber) authHeader)
             = FetchResponse st (Some body)
           \<and> (\<forall>audit.
                final (useTransferFormSubmission_submit (w\<lparr>rpc := audit\<rparr>) e s0 transfer_form)
                  = \<lparr>status = StatusSuccess, error = None\<rparr>
                \<and> settled (useTransferFormSubmission_submit (w\<lparr>rpc := audit\<rparr>) e s0 transfer_form)
                  = Inr (Some body))))"
proof (intro conjI impI)
  let ?p = "buildRefillRequestPayload refill_form pharmacyNumber apiKey username"
  assume h: "BESTRX_USERNAME e = Some username \<and> username \<noteq> []
      \<and> BESTRX_API_KEY e = Some apiKey \<and> apiKey \<noteq> []
      \<and> BESTRX_PHARMACY_NUMBER e = Some pharmacyNumber \<and> pharmacyNumber \<noteq> []
      \<and> success (snd (submitRefillToBestRX w ?p))"
  then obtain st body where
    f: "fetch w (refill_request ?p) = FetchResponse st (Some body)"
    and r: "submitRefillToBestRX w ?p =
               ([NetFetch (refill_request ?p)],
                \<lparr>success = True,
                 message = Val (JStr (str ''Refill request submitted successfully'')),
                 data = Some body\<rparr>)"
    using submitRefillToBestRX_success [of w ?p] by blast
  have "\<forall>audit.
          final (useRefillFormSubmission_submit (w\<lparr>rpc := audit\<rparr>) e s0 refill_form)
            = \<lparr>status = StatusSuccess, error = None\<rparr>
          \<and> settled (useRefillFormSubmission_submit (w\<lparr>rpc := audit\<rparr>) e s0 refill_form)
            = Inr (Some body)"
    using h r
    by (simp add: useRefillFormSubmission_submit_def Let_def env_truthy_def or_string_def
        submit_rpc_irrelevant)
  with f show "\<exists>st body.
           fetch w (refill_request ?p) = FetchResponse st (Some body)
           \<and> (\<forall>audit.
                final (useRefillFormSubmission_submit (w\<lparr>rpc := audit\<rparr>) e s0 refill_form)
                  = \<lparr>status = StatusSuccess, error = None\<rparr>
                \<and> settled (useRefillFormSubmission_submit (w\<lparr>rpc := audit\<rparr>) e s0 refill_form)
                  = Inr (Some body))"
    by blast
next
  let ?p = "buildTransferRequestPayload (now_iso w) transfer_form pharmacyNumber"
  assume h: "BESTRX_USERNAME e = Some username \<and> username \<noteq> []
      \<and> BESTRX_PASSWORD e = Some password \<and> password \<noteq> []
      \<and> BESTRX_PHARMACY_NUMBER e = Some pharmacyNumber \<and> pharmacyNumber \<noteq> []
      \<and> buildBasicAuthHeader (btoa w) username password = Some authHeader
      \<and> success (snd (submitTransferToBestRX w ?p authHeader))"
  then obtain st body where
    f: "fetch w (transfer_request ?p authHeader) = FetchResponse st (Some body)"
    and r: "submitTransferToBestRX w ?p authHeader =
               ([NetFetch (transfer_request ?p authHeader)],
                \<lparr>success = True,
                 message = Val (JStr (str ''Transfer request submitted successfully'')),
                 data = Some body\<rparr>)"
    using submitTransferToBestRX_success [of w ?p authHeader] by blast
  have "\<forall>audit.
          final (useTransferFormSubmission_submit (w\<lparr>rpc := audit\<rparr>) e s0 transfer_form)
            = \<lparr>status = StatusSuccess, error = None\<rparr>
          \<and> settled (useTransferFormSubmission_submit (w\<lparr>rpc := audit\<rparr>) e s0 transfer_form)
            = Inr (Some body)"
    using h r
    by (simp add: useTransferFormSubmission_submit_def Let_def env_truthy_def or_string_def
        submit_rpc_irrelevant)
  with f show "\<exists>st body.
           fetch w (transfer_request ?p authHeader) = FetchResponse st (Some body)
           \<and> (\<forall>audit.
                final (useTransferFormSubmission_submit (w\<lparr>rpc := audit\<rparr>) e s0 transfer_form)
                  = \<lparr>status = StatusSuccess, error = None\<rparr>
                \<and> settled (useTransferFormSubmission_submit (w\<lparr>rpc := audit\<rparr>) e s0 transfer_form)
                  = Inr (Some body))"
    by blast
qed

text \<open>
  In the example world both primary calls succeed; the audit write is made to reject, and
  to resolve with an error.
\<close>

theorem audit_failure_keeps_primary_result_witness:
  "settled (useRefillFormSubmission_submit (example_world\<lparr>rpc := (\<lambda>c. RpcRejected)\<rparr>)
       example_env idle_state example_refill_form) = Inr (Some example_refill_response)
   \<and> settled (useRefillFormSubmission_submit
       (example_world\<lparr>rpc := (\<lambda>c. RpcResolved (Some (str ''permission denied'')))\<rparr>)
       example_env idle_state example_refill_form) = Inr (Some example_refill_response)
   \<and> final (useRefillFormSubmission_submit (example_world\<lparr>rpc := (\<lambda>c. RpcRejected)\<rparr>)
       example_env idle_state example_refill_form) = \<lparr>status = StatusSuccess, error = None\<rparr>
   \<and> settled (useTransferFormSubmission_submit (example_world\<lparr>rpc := (\<lambda>c. RpcRejected)\<rparr>)
       example_env idle_state example_transfer_form) = Inr (Some example_transfer_response)
   \<and> settled (useTransferFormSubmission_submit
       (example_world\<lparr>rpc := (\<lambda>c. RpcResolved (Some (str ''permission denied'')))\<rparr>)
       example_env idle_state example_transfer_form) = Inr (Some example_transfer_response)
   \<and> final (useTransferFormSubmission_submit (example_world\<lparr>rpc := (\<lambda>c. RpcRejected)\<rparr>)
       example_env idle_state example_transfer_form) = \<lparr>status = StatusSuccess, error = None\<rparr>"
proof -
  let ?rp = "buildRefillRequestPayload example_refill_form (str ''1234567'') (str ''key'') (str ''user'')"
  let ?tp = "buildTransferRequestPayload (now_iso example_world) example_transfer_form (str ''1234567'')"
  let ?h = "str ''Basic dXNlcjpwdw==''"
  note inst = audit_failure_keeps_primary_result
               [of example_env "str ''user''" "str ''key''" "str ''1234567''" example_world
                   example_refill_form idle_state "str ''pw''" ?h example_transfer_form]
  have header: "buildBasicAuthHeader (btoa example_world) (str ''user'') (str ''pw'') = Some ?h"
    by (simp add: buildBasicAuthHeader_def example_world_def str_def)
  have refill_hyp:
    "BESTRX_USERNAME example_env = Some (str ''user'') \<and> str ''user'' \<noteq> []
      \<and> BESTRX_API_KEY example_env = Some (str ''key'') \<and> str ''key'' \<noteq> []
      \<and> BESTRX_PHARMACY_NUMBER example_env = Some (str ''1234567'') \<and> str ''1234567'' \<noteq> []
      \<and> success (snd (submitRefillToBestRX example_world ?rp))"
    by (simp add: example_env_def example_refill_primary str_def)
  have transfer_hyp:
    "BESTRX_USERNAME example_env = Some (str ''user'') \<and> str ''user'' \<noteq> []
      \<and> BESTRX_PASSWORD example_env = Some (str ''pw'') \<and> str ''pw'' \<noteq> []
      \<and> BESTRX_PHARMACY_NUMBER example_env = Some (str ''1234567'') \<and> str ''1234567'' \<noteq> []
      \<and> buildBasicAuthHeader (btoa example_world) (str ''user'') (str ''pw'') = Some ?h
      \<and> success (snd (submitTransferToBestRX example_world ?tp ?h))"
    using header by (simp add: example_env_def example_transfer_primary str_def)
  have rf: "fetch example_world (refill_request ?rp)
              = FetchResponse 200 (Some example_refill_response)"
    by (simp add: example_world_def refill_request_def)
  have tf: "fetch example_world (transfer_request ?tp ?h)
              = FetchResponse 200 (Some example_transfer_response)"
    by (simp add: example_world_def transfer_request_def)
  from inst [THEN conjunct1, rule_format, OF refill_hyp] rf
  have refill: "\<forall>audit.
      final (useRefillFormSubmission_submit (example_world\<lparr>rpc := audit\<rparr>) example_env
               idle_state example_refill_form) = \<lparr>status = StatusSuccess, error = None\<rparr>
      \<and> settled (useRefillFormSubmission_submit (example_world\<lparr>rpc := audit\<rparr>) example_env
               idle_state example_refill_form) = Inr (Some example_refill_response)"
    by auto
  from inst [THEN conjunct2, rule_format, OF transfer_hyp] tf
  have transfer: "\<forall>audit.
      final (useTransferFormSubmission_submit (example_world\<lparr>rpc := audit\<rparr>) example_env
               idle_state example_transfer_form) = \<lparr>status = StatusSuccess, error = None\<rparr>
      \<and> settled (useTransferFormSubmission_submit (example_world\<lparr>rpc := audit\<rparr>) example_env
               idle_state example_transfer_form) = Inr (Some example_transfer_response)"
    by auto
  from refill transfer show ?thesis
    by blast
qed


end
